theory Spec2Isabelle
  imports Complex_Main
begin

section \<open>Colour interpolation of ridgeplot traces (\<open>ridgeplot/_colormodes.py\<close>)\<close>

text \<open>
  The module computes one colour per density trace. A strategy (the ``colormode'') turns
  the grid of traces into a grid of interpolants, and every interpolant is looked up in a
  colour scale. The numbers of a trace (\<open>Numeric\<close>) are modelled as exact rationals, so
  the rounding of floating-point arithmetic is abstracted away; a Python exception is a
  value \<open>Inl e\<close> of the result type \<open>error + 'a\<close>. What \<open>/\<close> does on a zero divisor
  depends on the kind of number: the built-in \<open>int\<close> and \<open>float\<close> raise
  \<open>ZeroDivisionError\<close>, numpy scalars return \<open>nan\<close> or an infinity with a warning. The
  index-based strategies divide two \<open>int\<close>s; the mean-based strategies divide two sums
  over the numbers of a trace, and take their division as a parameter.
\<close>

subsection \<open>Errors and fallible building blocks\<close>

datatype error = ZeroDivisionError | ValueError string

text \<open>
  A list comprehension or a \<open>for\<close> loop that appends one result per element and whose body
  may raise: the elements are processed from left to right and the first exception ends
  the evaluation.
\<close>

fun traverse :: "('a \<Rightarrow> error + 'b) \<Rightarrow> 'a list \<Rightarrow> error + 'b list" where
  "traverse f [] = Inr []"
| "traverse f (x # xs) =
     (case f x of
        Inl e \<Rightarrow> Inl e
      | Inr y \<Rightarrow> (case traverse f xs of Inl e \<Rightarrow> Inl e | Inr ys \<Rightarrow> Inr (y # ys)))"

text \<open>
  Python's true division \<open>a / b\<close> of the built-in numbers: on two \<open>int\<close>s, and on two
  numbers of which at least one is a \<open>float\<close>. Both raise on a zero divisor.
\<close>

definition py_truediv :: "int \<Rightarrow> int \<Rightarrow> error + rat" where
  "py_truediv a b = (if b = 0 then Inl ZeroDivisionError else Inr (of_int a / of_int b))"

definition py_div :: "rat \<Rightarrow> rat \<Rightarrow> error + rat" where
  "py_div a b = (if b = 0 then Inl ZeroDivisionError else Inr (a / b))"


text \<open>Python's \<open>min\<close> and \<open>max\<close> of a list: \<open>ValueError\<close> on the empty list.\<close>

fun py_min :: "rat list \<Rightarrow> error + rat" where
  "py_min [] = Inl (ValueError ''min() arg is an empty sequence'')"
| "py_min (x # xs) = Inr (fold min xs x)"

fun py_max :: "rat list \<Rightarrow> error + rat" where
  "py_max [] = Inl (ValueError ''max() arg is an empty sequence'')"
| "py_max (x # xs) = Inr (fold max xs x)"

subsection \<open>The data model\<close>

text \<open>
  A trace is a sequence of \<open>(x, y)\<close> points, a row a sequence of traces, and the densities
  a sequence of rows. \<open>InterpolationContext\<close> is the dataclass of the source: its fields
  are plain attributes, so a context may hold any counts and extrema.
\<close>

type_synonym trace = "(rat \<times> rat) list"
type_synonym Densities = "trace list list"
type_synonym ColorscaleInterpolants = "rat list list"

record InterpolationContext =
  densities :: Densities
  n_rows :: int
  n_traces :: int
  x_min :: rat
  x_max :: rat

text \<open>
  \<open>InterpolationContext.from_densities\<close>. The helper \<open>get_xy_extrema\<close> lives in
  \<open>ridgeplot/_utils.py\<close> and is the parameter \<open>gxe\<close>; it returns
  \<open>(x_min, x_max, y_min, y_max)\<close> or raises.
\<close>

definition from_densities ::
  "(Densities \<Rightarrow> error + rat \<times> rat \<times> rat \<times> rat) \<Rightarrow> Densities \<Rightarrow> error + InterpolationContext"
where
  "from_densities gxe ds =
     (case gxe ds of
        Inl e \<Rightarrow> Inl e
      | Inr (xmin, xmax, _, _) \<Rightarrow>
          Inr \<lparr>densities = ds,
               n_rows = int (length ds),
               n_traces = sum_list (map (\<lambda>row. int (length row)) ds),
               x_min = xmin,
               x_max = xmax\<rparr>)"

subsection \<open>The five strategies\<close>

text \<open>\<open>_mul\<close>: the element-wise product of two tuples, as long as the shorter one.\<close>

definition mul :: "rat list \<Rightarrow> rat list \<Rightarrow> rat list" where
  "mul a b = map (\<lambda>(a_i, b_i). a_i * b_i) (zip a b)"

text \<open>
  \<open>_interpolate_row_index\<close>. The element \<open>[v] * len(row)\<close> evaluates the quotient \<open>v\<close>
  once per row, also for a row without traces.
\<close>

definition interpolate_row_index :: "InterpolationContext \<Rightarrow> error + ColorscaleInterpolants" where
  "interpolate_row_index ctx =
     traverse
       (\<lambda>(ith_row, row).
          case py_truediv ((n_rows ctx - 1) - int ith_row) (n_rows ctx - 1) of
            Inl e \<Rightarrow> Inl e
          | Inr v \<Rightarrow> Inr (replicate (length row) v))
       (enumerate 0 (densities ctx))"

text \<open>
  \<open>_interpolate_trace_index\<close>. The counter \<open>ith_trace\<close> runs through both loops: the inner
  loop returns the row of interpolants together with the counter it has reached.
\<close>

fun trace_index_row :: "int \<Rightarrow> int \<Rightarrow> trace list \<Rightarrow> error + (rat list \<times> int)" where
  "trace_index_row nt ith_trace [] = Inr ([], ith_trace)"
| "trace_index_row nt ith_trace (_ # row) =
     (case py_truediv ((nt - 1) - ith_trace) (nt - 1) of
        Inl e \<Rightarrow> Inl e
      | Inr v \<Rightarrow>
          (case trace_index_row nt (ith_trace + 1) row of
             Inl e \<Rightarrow> Inl e
           | Inr (ps_row, k) \<Rightarrow> Inr (v # ps_row, k)))"

fun trace_index_rows :: "int \<Rightarrow> int \<Rightarrow> Densities \<Rightarrow> error + ColorscaleInterpolants" where
  "trace_index_rows nt ith_trace [] = Inr []"
| "trace_index_rows nt ith_trace (row # rows) =
     (case trace_index_row nt ith_trace row of
        Inl e \<Rightarrow> Inl e
      | Inr (ps_row, k) \<Rightarrow>
          (case trace_index_rows nt k rows of
             Inl e \<Rightarrow> Inl e
           | Inr ps \<Rightarrow> Inr (ps_row # ps)))"

definition interpolate_trace_index :: "InterpolationContext \<Rightarrow> error + ColorscaleInterpolants" where
  "interpolate_trace_index ctx = trace_index_rows (n_traces ctx) 0 (densities ctx)"

text \<open>\<open>_interpolate_trace_index_row_wise\<close>: the index restarts in every row.\<close>

definition interpolate_trace_index_row_wise ::
  "InterpolationContext \<Rightarrow> error + ColorscaleInterpolants"
where
  "interpolate_trace_index_row_wise ctx =
     traverse
       (\<lambda>row. traverse
          (\<lambda>ith_row_trace.
             py_truediv ((int (length row) - 1) - int ith_row_trace) (int (length row) - 1))
          [0 ..< length row])
       (densities ctx)"

text \<open>
  The weighted mean of a trace, the expression \<open>sum(_mul(x, y)) / sum(y)\<close> after
  \<open>x, y = zip(*trace)\<close>. Unpacking the transposition of a trace without points raises a
  \<open>ValueError\<close>. The division is the one of the numbers that the trace holds: it is the
  parameter \<open>truediv\<close>, which is given the trace and the two sums, and whose results have
  the type \<open>'m\<close> (for numpy scalars they include \<open>nan\<close> and the infinities). There is no
  special case for a divisor that is zero.
\<close>

definition unzip_trace :: "trace \<Rightarrow> error + (rat list \<times> rat list)" where
  "unzip_trace t =
     (if t = [] then Inl (ValueError ''not enough values to unpack (expected 2, got 0)'')
      else Inr (map fst t, map snd t))"

definition trace_mean_with :: "(trace \<Rightarrow> rat \<Rightarrow> rat \<Rightarrow> error + 'm) \<Rightarrow> trace \<Rightarrow> error + 'm" where
  "trace_mean_with truediv t =
     (case unzip_trace t of
        Inl e \<Rightarrow> Inl e
      | Inr (x, y) \<Rightarrow> truediv t (sum_list (mul x y)) (sum_list y))"

text \<open>
  \<open>_interpolate_mean_minmax\<close> and \<open>_interpolate_mean_means\<close>, for any kind of number. The
  helper \<open>normalise_min_max(val, min_, max_)\<close> lives in \<open>ridgeplot/_utils.py\<close> and is the
  parameter \<open>nmm\<close>; the built-in \<open>min\<close> and \<open>max\<close> on lists of means are the parameters
  \<open>minimum\<close> and \<open>maximum\<close>.
\<close>

definition interpolate_mean_minmax_with ::
  "(trace \<Rightarrow> rat \<Rightarrow> rat \<Rightarrow> error + 'm) \<Rightarrow> ('m \<Rightarrow> rat \<Rightarrow> rat \<Rightarrow> error + rat) \<Rightarrow>
   InterpolationContext \<Rightarrow> error + ColorscaleInterpolants"
where
  "interpolate_mean_minmax_with truediv nmm ctx =
     traverse
       (\<lambda>row. traverse
          (\<lambda>t. case trace_mean_with truediv t of
                 Inl e \<Rightarrow> Inl e
               | Inr m \<Rightarrow> nmm m (x_min ctx) (x_max ctx))
          row)
       (densities ctx)"

definition interpolate_mean_means_with ::
  "(trace \<Rightarrow> rat \<Rightarrow> rat \<Rightarrow> error + 'm) \<Rightarrow> ('m list \<Rightarrow> error + 'm) \<Rightarrow> ('m list \<Rightarrow> error + 'm) \<Rightarrow>
   ('m \<Rightarrow> 'm \<Rightarrow> 'm \<Rightarrow> error + rat) \<Rightarrow> InterpolationContext \<Rightarrow> error + ColorscaleInterpolants"
where
  "interpolate_mean_means_with truediv minimum maximum nmm ctx =
     (case traverse (traverse (trace_mean_with truediv)) (densities ctx) of
        Inl e \<Rightarrow> Inl e
      | Inr means \<Rightarrow>
     (case traverse minimum means of
        Inl e \<Rightarrow> Inl e
      | Inr row_mins \<Rightarrow>
     (case minimum row_mins of
        Inl e \<Rightarrow> Inl e
      | Inr min_mean \<Rightarrow>
     (case traverse maximum means of
        Inl e \<Rightarrow> Inl e
      | Inr row_maxs \<Rightarrow>
     (case maximum row_maxs of
        Inl e \<Rightarrow> Inl e
      | Inr max_mean \<Rightarrow>
          traverse (traverse (\<lambda>mean. nmm mean min_mean max_mean)) means)))))"

text \<open>
  The same on densities of built-in numbers (\<open>int\<close> and \<open>float\<close>), where every mean is
  a number again: the division is \<open>py_div\<close>, and \<open>min\<close> and \<open>max\<close> are \<open>py_min\<close> and
  \<open>py_max\<close>.
\<close>

definition trace_mean :: "trace \<Rightarrow> error + rat" where
  "trace_mean t = trace_mean_with (\<lambda>_. py_div) t"

definition interpolate_mean_minmax ::
  "(rat \<Rightarrow> rat \<Rightarrow> rat \<Rightarrow> error + rat) \<Rightarrow> InterpolationContext \<Rightarrow> error + ColorscaleInterpolants"
where
  "interpolate_mean_minmax nmm ctx = interpolate_mean_minmax_with (\<lambda>_. py_div) nmm ctx"

definition interpolate_mean_means ::
  "(rat \<Rightarrow> rat \<Rightarrow> rat \<Rightarrow> error + rat) \<Rightarrow> InterpolationContext \<Rightarrow> error + ColorscaleInterpolants"
where
  "interpolate_mean_means nmm ctx =
     interpolate_mean_means_with (\<lambda>_. py_div) py_min py_max nmm ctx"

subsection \<open>The dispatch table and \<open>compute_trace_colors\<close>\<close>

text \<open>
  \<open>COLORMODE_MAPS\<close>: a dictionary with five keys, in the order of the source. The
  mean-based entries are the strategies on built-in numbers.
\<close>

definition COLORMODE_MAPS ::
  "(rat \<Rightarrow> rat \<Rightarrow> rat \<Rightarrow> error + rat) \<Rightarrow>
   (string \<times> (InterpolationContext \<Rightarrow> error + ColorscaleInterpolants)) list"
where
  "COLORMODE_MAPS nmm =
     [(''row-index'', interpolate_row_index),
      (''trace-index'', interpolate_trace_index),
      (''trace-index-row-wise'', interpolate_trace_index_row_wise),
      (''mean-minmax'', interpolate_mean_minmax nmm),
      (''mean-means'', interpolate_mean_means nmm)]"

text \<open>
  The text of \<open>tuple(COLORMODE_MAPS)\<close> inside an f-string: the keys in single quotes,
  separated by a comma and a space, in parentheses (a tuple of one key would end in a
  comma, which the five keys here never need).
\<close>

fun join_keys :: "string list \<Rightarrow> string" where
  "join_keys [] = []"
| "join_keys [k] = [CHR 0x27] @ k @ [CHR 0x27]"
| "join_keys (k # ks) = [CHR 0x27] @ k @ [CHR 0x27] @ '', '' @ join_keys ks"

definition tuple_repr :: "string list \<Rightarrow> string" where
  "tuple_repr ks = ''('' @ join_keys ks @ '')''"

definition colormode_error :: "string list \<Rightarrow> string \<Rightarrow> error" where
  "colormode_error ks colormode =
     ValueError (''The colormode argument should be one of '' @ tuple_repr ks
                 @ '', got '' @ colormode @ '' instead.'')"

text \<open>
  The local function \<open>_get_color\<close>. The colour engine of \<open>ridgeplot/_colors.py\<close>
  (\<open>normalise_colorscale\<close>, \<open>interpolate_color\<close>, \<open>apply_alpha\<close>) is passed in as the
  parameters \<open>ncs\<close>, \<open>ic\<close> and \<open>aa\<close>.
\<close>

definition get_color ::
  "('s \<Rightarrow> rat \<Rightarrow> error + 'c) \<Rightarrow> ('c \<Rightarrow> rat \<Rightarrow> error + 'c) \<Rightarrow> 's \<Rightarrow> rat option \<Rightarrow> rat \<Rightarrow> error + 'c"
where
  "get_color ic aa colorscale coloralpha p =
     (case ic colorscale p of
        Inl e \<Rightarrow> Inl e
      | Inr color \<Rightarrow>
          (case coloralpha of
             None \<Rightarrow> Inr color
           | Some alpha \<Rightarrow> aa color alpha))"

definition compute_trace_colors ::
  "('i \<Rightarrow> error + 's) \<Rightarrow> ('s \<Rightarrow> rat \<Rightarrow> error + 'c) \<Rightarrow> ('c \<Rightarrow> rat \<Rightarrow> error + 'c) \<Rightarrow>
   (rat \<Rightarrow> rat \<Rightarrow> rat \<Rightarrow> error + rat) \<Rightarrow>
   'i \<Rightarrow> string \<Rightarrow> rat option \<Rightarrow> InterpolationContext \<Rightarrow> error + 'c list list"
where
  "compute_trace_colors ncs ic aa nmm colorscale colormode coloralpha interpolation_ctx =
     (case ncs colorscale of
        Inl e \<Rightarrow> Inl e
      | Inr scale \<Rightarrow>
          (case map_of (COLORMODE_MAPS nmm) colormode of
             None \<Rightarrow> Inl (colormode_error (map fst (COLORMODE_MAPS nmm)) colormode)
           | Some interpolate_func \<Rightarrow>
               (case interpolate_func interpolation_ctx of
                  Inl e \<Rightarrow> Inl e
                | Inr interpolants \<Rightarrow>
                    traverse (traverse (get_color ic aa scale coloralpha)) interpolants)))"

subsection \<open>The helpers of \<open>_utils.py\<close> and \<open>_colors.py\<close>\<close>

text \<open>
  The theorems below hold for every \<open>gxe\<close>, \<open>nmm\<close>, \<open>ncs\<close>, \<open>ic\<close> and \<open>aa\<close>. The
  following definitions give the concrete helpers at which the theorems are instantiated
  and evaluated.
\<close>

text \<open>
  Modelled from the spec: \<open>get_xy_extrema\<close> of \<open>ridgeplot/_utils.py\<close> is missing from the
  sources. Section 4.1: the extrema are the minimum and maximum over the coordinates of
  all points of all traces of all rows; a grid without rows and a row without traces are
  invalid-input errors. A grid without any point has no extrema: the minimum of an empty
  sequence is taken to fail as Python's \<open>min\<close> does.
\<close>

definition get_xy_extrema :: "Densities \<Rightarrow> error + rat \<times> rat \<times> rat \<times> rat" where
  "get_xy_extrema ds =
     (if ds = [] then Inl (ValueError ''The densities array should not be empty.'')
      else if [] \<in> set ds then Inl (ValueError ''The densities array should not have empty rows.'')
      else
        (let points = concat (concat ds) in
         case py_min (map fst points) of
           Inl e \<Rightarrow> Inl e
         | Inr xmin \<Rightarrow>
         (case py_max (map fst points) of
           Inl e \<Rightarrow> Inl e
         | Inr xmax \<Rightarrow>
         (case py_min (map snd points) of
           Inl e \<Rightarrow> Inl e
         | Inr ymin \<Rightarrow>
         (case py_max (map snd points) of
           Inl e \<Rightarrow> Inl e
         | Inr ymax \<Rightarrow> Inr (xmin, xmax, ymin, ymax))))))"

text \<open>
  Modelled from the spec: \<open>normalise_min_max\<close> of \<open>ridgeplot/_utils.py\<close> is missing from
  the sources. Section 4.2: min-max normalisation \<open>(val - lo) / (hi - lo)\<close> of a value between the bounds \<open>lo\<close> and \<open>hi\<close>, which fails
  with a division by zero when \<open>lo = hi\<close>.
\<close>

definition normalise_min_max :: "rat \<Rightarrow> rat \<Rightarrow> rat \<Rightarrow> error + rat" where
  "normalise_min_max val lo hi = py_div (val - lo) (hi - lo)"

text \<open>
  Modelled from the spec: the colour engine of \<open>ridgeplot/_colors.py\<close> is missing from
  the sources. Colours are kept as channel tuples; the texts \<open>rgb(r, g, b)\<close> and
  \<open>rgba(r, g, b, a)\<close> that the library prints, and their parsing, are not modelled.
\<close>

type_synonym rgb = "rat \<times> rat \<times> rat"

datatype color = RGB rat rat rat | RGBA rat rat rat rat

type_synonym ColorScale = "(rat \<times> rgb) list"

datatype colorscale_arg =
    Named string
  | Flat "rgb list"
  | Explicit ColorScale

text \<open>
  Modelled from the spec: Section 4.3. A flat sequence of \<open>n\<close> colours gets the positions
  \<open>i / (n - 1)\<close>, a single colour is duplicated at the positions 0 and 1, an empty sequence
  is invalid.
\<close>

definition evenly_spaced :: "rgb list \<Rightarrow> error + ColorScale" where
  "evenly_spaced cs =
     (case cs of
        [] \<Rightarrow> Inl (ValueError ''The colorscale should not be empty.'')
      | [c] \<Rightarrow> Inr [(0, c), (1, c)]
      | _ \<Rightarrow> Inr (map (\<lambda>(i, c). (of_nat i / of_nat (length cs - 1), c)) (enumerate 0 cs)))"

text \<open>
  Modelled from the spec: Section 4.3. A name is looked up in the registry of built-in
  palettes (the parameter \<open>registry\<close>); an explicit scale must be non-empty, strictly
  increasing in its positions, start at 0 and end at 1, and is returned unchanged.
\<close>

definition normalise_colorscale ::
  "(string \<times> rgb list) list \<Rightarrow> colorscale_arg \<Rightarrow> error + ColorScale"
where
  "normalise_colorscale registry colorscale =
     (case colorscale of
        Named name \<Rightarrow>
          (case map_of registry name of
             None \<Rightarrow> Inl (ValueError ''Unknown colorscale name.'')
           | Some cs \<Rightarrow> evenly_spaced cs)
      | Flat cs \<Rightarrow> evenly_spaced cs
      | Explicit sc \<Rightarrow>
          (if sc = [] then Inl (ValueError ''The colorscale should not be empty.'')
           else if \<not> sorted_wrt (<) (map fst sc)
             then Inl (ValueError ''The colorscale positions should be increasing.'')
           else if fst (hd sc) \<noteq> 0 \<or> fst (last sc) \<noteq> 1
             then Inl (ValueError ''The colorscale should start at 0 and end at 1.'')
           else Inr sc))"

text \<open>
  Modelled from the spec: Section 4.4. The first pair of neighbouring stops that brackets
  the position, and the linear interpolation of every channel by the fractional offset
  (0 when both stops share a position). A position outside \<open>[0, 1]\<close> is an error.
\<close>

fun bracket :: "ColorScale \<Rightarrow> rat \<Rightarrow> ((rat \<times> rgb) \<times> (rat \<times> rgb)) option" where
  "bracket (lo # hi # rest) p =
     (if fst lo \<le> p \<and> p \<le> fst hi then Some (lo, hi) else bracket (hi # rest) p)"
| "bracket _ p = None"

definition lerp :: "rat \<Rightarrow> rat \<Rightarrow> rat \<Rightarrow> rat" where
  "lerp fr a b = a + fr * (b - a)"

definition interpolate_color :: "ColorScale \<Rightarrow> rat \<Rightarrow> error + color" where
  "interpolate_color colorscale p =
     (if p < 0 \<or> 1 < p then Inl (ValueError ''p should be a float value between 0 and 1.'')
      else
        (case bracket colorscale p of
           None \<Rightarrow> Inl (ValueError ''p is not covered by the colorscale.'')
         | Some ((pos_lo, (r0, g0, b0)), (pos_hi, (r1, g1, b1))) \<Rightarrow>
             (let fr = (if pos_hi = pos_lo then 0 else (p - pos_lo) / (pos_hi - pos_lo))
              in Inr (RGB (lerp fr r0 r1) (lerp fr g0 g1) (lerp fr b0 b1)))))"

text \<open>
  Modelled from the spec: Section 4.4. Alpha blending puts the colour into its RGBA form
  with the given alpha and leaves the other channels alone. The failure on a text that is
  no colour has no counterpart on channel tuples.
\<close>

fun apply_alpha :: "color \<Rightarrow> rat \<Rightarrow> error + color" where
  "apply_alpha (RGB r g b) alpha = Inr (RGBA r g b alpha)"
| "apply_alpha (RGBA r g b _) alpha = Inr (RGBA r g b alpha)"

subsection \<open>The weighted mean in the words of the specification\<close>

text \<open>
  The specification describes the weighted mean x of a trace as \<open>\<Sigma>(x\<cdot>y) / \<Sigma>(y)\<close>, and
  the means of a grid as the means of all its traces. These two definitions follow
  those words; the theorems compare them with \<open>trace_mean\<close> of the source.
\<close>

definition spec_weighted_mean :: "trace \<Rightarrow> rat" where
  "spec_weighted_mean t = sum_list (map (\<lambda>(x, y). x * y) t) / sum_list (map snd t)"

definition spec_all_means :: "Densities \<Rightarrow> rat list" where
  "spec_all_means ds = map spec_weighted_mean (concat ds)"

subsection \<open>Example inputs\<close>

text \<open>
  Three traces (the last one without mass), a two-stop grey colour scale, and the contexts
  that \<open>from_densities\<close> builds for the grids used below.
\<close>

definition trace_a :: trace where "trace_a = [(0, 1), (1, 3)]"
definition trace_b :: trace where "trace_b = [(2, 1), (4, 1)]"
definition trace_z :: trace where "trace_z = [(2, 0), (4, 0)]"

definition grey_scale :: colorscale_arg where
  "grey_scale = Flat [(0, 0, 0), (255, 255, 255)]"

definition ctx_2_3 :: InterpolationContext where
  "ctx_2_3 = \<lparr>densities = [[trace_a, trace_b], [trace_b, trace_a, trace_a]],
       n_rows = 2, n_traces = 5, x_min = 0, x_max = 4\<rparr>"

definition ctx_1_2 :: InterpolationContext where
  "ctx_1_2 = \<lparr>densities = [[trace_a, trace_b]],
       n_rows = 1, n_traces = 2, x_min = 0, x_max = 4\<rparr>"


definition ctx_3_1 :: InterpolationContext where
  "ctx_3_1 = \<lparr>densities = [[trace_a], [trace_b], [trace_a]],
       n_rows = 3, n_traces = 3, x_min = 0, x_max = 4\<rparr>"

definition ctx_2_1 :: InterpolationContext where
  "ctx_2_1 = \<lparr>densities = [[trace_a, trace_b], [trace_a]],
       n_rows = 2, n_traces = 3, x_min = 0, x_max = 4\<rparr>"

definition ctx_2_3_other :: InterpolationContext where
  "ctx_2_3_other = \<lparr>densities = [[trace_b, trace_z], [trace_a, trace_z, trace_b]],
       n_rows = 2, n_traces = 5, x_min = 0, x_max = 4\<rparr>"

section \<open>Properties\<close>

subsection \<open>The mean-based strategies on built-in numbers, spelled out\<close>

lemma trace_mean_unfold:
  "trace_mean t =
     (case unzip_trace t of
        Inl e \<Rightarrow> Inl e
      | Inr (x, y) \<Rightarrow> py_div (sum_list (mul x y)) (sum_list y))"
  by (simp add: trace_mean_def trace_mean_with_def)

lemma trace_mean_with_py_div: "trace_mean_with (\<lambda>_. py_div) = trace_mean"
  by (simp add: fun_eq_iff trace_mean_def)

lemma interpolate_mean_minmax_unfold:
  "interpolate_mean_minmax nmm ctx =
     traverse
       (\<lambda>row. traverse
          (\<lambda>t. case trace_mean t of
                 Inl e \<Rightarrow> Inl e
               | Inr m \<Rightarrow> nmm m (x_min ctx) (x_max ctx))
          row)
       (densities ctx)"
  by (simp add: interpolate_mean_minmax_def interpolate_mean_minmax_with_def
      trace_mean_with_py_div)

lemma interpolate_mean_means_unfold:
  "interpolate_mean_means nmm ctx =
     (case traverse (traverse trace_mean) (densities ctx) of
        Inl e \<Rightarrow> Inl e
      | Inr means \<Rightarrow>
     (case traverse py_min means of
        Inl e \<Rightarrow> Inl e
      | Inr row_mins \<Rightarrow>
     (case py_min row_mins of
        Inl e \<Rightarrow> Inl e
      | Inr min_mean \<Rightarrow>
     (case traverse py_max means of
        Inl e \<Rightarrow> Inl e
      | Inr row_maxs \<Rightarrow>
     (case py_max row_maxs of
        Inl e \<Rightarrow> Inl e
      | Inr max_mean \<Rightarrow>
          traverse (traverse (\<lambda>mean. nmm mean min_mean max_mean)) means)))))"
  by (simp add: interpolate_mean_means_def interpolate_mean_means_with_def
      trace_mean_with_py_div)

subsection \<open>Loops with a fallible body\<close>

lemma traverse_Inr_all2:
  "traverse f xs = Inr ys \<Longrightarrow> list_all2 (\<lambda>x y. f x = Inr y) xs ys"
  by (induction xs arbitrary: ys) (auto split: sum.splits)

lemma traverse_length: "traverse f xs = Inr ys \<Longrightarrow> length ys = length xs"
  by (drule traverse_Inr_all2) (simp add: list_all2_lengthD)

lemma traverse_nth: "traverse f xs = Inr ys \<Longrightarrow> i < length xs \<Longrightarrow> f (xs ! i) = Inr (ys ! i)"
  by (drule traverse_Inr_all2) (erule list_all2_nthD)

lemma traverse_total:
  "(\<And>x. x \<in> set xs \<Longrightarrow> \<exists>y. f x = Inr y) \<Longrightarrow> \<exists>ys. traverse f xs = Inr ys"
proof (induction xs)
  case Nil
  show ?case by simp
next
  case (Cons x xs)
  from Cons.prems obtain y where y: "f x = Inr y" by auto
  from Cons.IH Cons.prems obtain ys where "traverse f xs = Inr ys" by auto
  with y show ?case by simp
qed

lemma traverse_fails:
  "x \<in> set xs \<Longrightarrow> f x = Inl e \<Longrightarrow> \<exists>e'. traverse f xs = Inl e'"
  by (induction xs) (auto split: sum.splits)

lemma traverse_Inl_set:
  "traverse f xs = Inl e \<Longrightarrow> \<exists>x\<in>set xs. f x = Inl e"
  by (induction xs) (auto split: sum.splits)

lemma traverse_one_error:
  assumes "x \<in> set xs" and "f x = Inl e" and "\<forall>y\<in>set xs. \<forall>e'. f y = Inl e' \<longrightarrow> e' = e"
  shows "traverse f xs = Inl e"
proof -
  from traverse_fails [of x xs f e] assms(1,2) obtain e' where e': "traverse f xs = Inl e'"
    by blast
  from traverse_Inl_set [OF e'] assms(3) have "e' = e" by blast
  with e' show ?thesis by simp
qed



lemma traverse_traverse_total:
  assumes "\<forall>row\<in>set xss. \<forall>x\<in>set row. \<exists>y. f x = Inr y"
  shows "\<exists>yss. traverse (traverse f) xss = Inr yss"
  using assms by (intro traverse_total) auto

subsection \<open>The shape of the interpolants and of the colours\<close>











subsection \<open>A single row under \<open>row-index\<close>\<close>

lemma COLORMODE_MAPS_row_index:
  "map_of (COLORMODE_MAPS nmm) ''row-index'' = Some interpolate_row_index"
  by (simp add: COLORMODE_MAPS_def)

text \<open>
  Claim C2, as amended. The source divides by \<open>n_rows - 1\<close> without a special case. For
  a context with \<open>n_rows = 1\<close> and at least one row, the strategy \<open>row-index\<close> raises
  \<open>ZeroDivisionError\<close>, and \<open>compute_trace_colors\<close> with the colormode \<open>row-index\<close>
  returns no colour: it fails, with \<open>ZeroDivisionError\<close> whenever the colour scale
  normalises.
\<close>

theorem row_index_single_row:
  assumes "n_rows ctx = 1" and "densities ctx \<noteq> []"
  shows "interpolate_row_index ctx = Inl ZeroDivisionError
    \<and> (\<exists>e. compute_trace_colors ncs ic aa nmm colorscale ''row-index'' coloralpha ctx = Inl e)
    \<and> (ncs colorscale = Inr scale \<longrightarrow>
         compute_trace_colors ncs ic aa nmm colorscale ''row-index'' coloralpha ctx
           = Inl ZeroDivisionError)"
proof -
  from assms(2) obtain row rows where d: "densities ctx = row # rows"
    by (cases "densities ctx") auto
  have r: "interpolate_row_index ctx = Inl ZeroDivisionError"
    by (simp add: interpolate_row_index_def d assms(1) py_truediv_def)
  show ?thesis
    by (cases "ncs colorscale")
       (simp_all add: r compute_trace_colors_def COLORMODE_MAPS_row_index)
qed

theorem row_index_single_row_witness:
  "n_rows ctx_1_2 = 1 \<and> densities ctx_1_2 \<noteq> []
   \<and> normalise_colorscale [] grey_scale = Inr [(0, (0, 0, 0)), (1, (255, 255, 255))]
   \<and> interpolate_row_index ctx_1_2 = Inl ZeroDivisionError
   \<and> compute_trace_colors (normalise_colorscale []) interpolate_color apply_alpha
         normalise_min_max grey_scale ''row-index'' (Some (1 / 2)) ctx_1_2
       = Inl ZeroDivisionError"
proof -
  have a: "n_rows ctx_1_2 = 1" and b: "densities ctx_1_2 \<noteq> []"
    by (simp_all add: ctx_1_2_def)
  have n: "normalise_colorscale [] grey_scale = Inr [(0, (0, 0, 0)), (1, (255, 255, 255))]"
    by code_simp
  from row_index_single_row [OF a b, of "normalise_colorscale []" interpolate_color
      apply_alpha normalise_min_max grey_scale "Some (1 / 2)"
      "[(0, (0, 0, 0)), (1, (255, 255, 255))]"] a b n
  show ?thesis by blast
qed

text \<open>
  Claim C2, as stated, fails on the grid of one row with two traces: no trace gets a
  position, and no colour is returned.
\<close>

theorem row_index_single_row_counterexample:
  "from_densities get_xy_extrema [[trace_a, trace_b]] = Inr ctx_1_2
   \<and> interpolate_row_index ctx_1_2 = Inl ZeroDivisionError
   \<and> compute_trace_colors (normalise_colorscale []) interpolate_color apply_alpha
         normalise_min_max grey_scale ''row-index'' None ctx_1_2 = Inl ZeroDivisionError"
  by code_simp

subsection \<open>An unknown colormode\<close>

lemma COLORMODE_MAPS_keys:
  "map fst (COLORMODE_MAPS nmm)
     = [''row-index'', ''trace-index'', ''trace-index-row-wise'', ''mean-minmax'', ''mean-means'']"
  by (simp add: COLORMODE_MAPS_def)

lemma COLORMODE_MAPS_unknown:
  "colormode \<notin> set (map fst (COLORMODE_MAPS nmm)) \<Longrightarrow> map_of (COLORMODE_MAPS nmm) colormode = None"
  by (simp add: map_of_eq_None_iff)

text \<open>
  Claim C3, as amended. \<open>compute_trace_colors\<close> normalises the colour scale first and
  looks the colormode up afterwards. For a colormode that is none of the five keys: when
  the colour scale normalises, the call fails with the \<open>ValueError\<close> whose message lists
  the five keys and the colormode received; when the colour scale is invalid, the call
  fails with the error of the normalisation instead.
\<close>

theorem compute_trace_colors_unknown_colormode:
  assumes "colormode \<notin> {''row-index'', ''trace-index'', ''trace-index-row-wise'',
             ''mean-minmax'', ''mean-means''}"
  shows "(ncs colorscale = Inr scale \<longrightarrow>
           compute_trace_colors ncs ic aa nmm colorscale colormode coloralpha ctx
             = Inl (ValueError (''The colormode argument should be one of ''
                 @ tuple_repr [''row-index'', ''trace-index'', ''trace-index-row-wise'',
                     ''mean-minmax'', ''mean-means'']
                 @ '', got '' @ colormode @ '' instead.'')))
       \<and> (ncs colorscale = Inl e \<longrightarrow>
           compute_trace_colors ncs ic aa nmm colorscale colormode coloralpha ctx = Inl e)"
proof -
  from assms have "colormode \<notin> set (map fst (COLORMODE_MAPS nmm))"
    by (simp add: COLORMODE_MAPS_keys)
  then have "map_of (COLORMODE_MAPS nmm) colormode = None"
    by (rule COLORMODE_MAPS_unknown)
  then show ?thesis
    by (simp add: compute_trace_colors_def colormode_error_def COLORMODE_MAPS_keys)
qed

theorem compute_trace_colors_unknown_colormode_witness:
  "''mean'' \<notin> {''row-index'', ''trace-index'', ''trace-index-row-wise'', ''mean-minmax'', ''mean-means''}
   \<and> normalise_colorscale [] grey_scale = Inr [(0, (0, 0, 0)), (1, (255, 255, 255))]
   \<and> compute_trace_colors (normalise_colorscale []) interpolate_color apply_alpha
         normalise_min_max grey_scale ''mean'' None ctx_2_3
       = Inl (ValueError (''The colormode argument should be one of ''
                 @ tuple_repr [''row-index'', ''trace-index'', ''trace-index-row-wise'',
                     ''mean-minmax'', ''mean-means'']
                 @ '', got mean instead.''))
   \<and> normalise_colorscale [] (Flat []) = Inl (ValueError ''The colorscale should not be empty.'')
   \<and> compute_trace_colors (normalise_colorscale []) interpolate_color apply_alpha
         normalise_min_max (Flat []) ''mean'' None ctx_2_3
       = Inl (ValueError ''The colorscale should not be empty.'')"
proof -
  have a: "''mean'' \<notin> {''row-index'', ''trace-index'', ''trace-index-row-wise'',
      ''mean-minmax'', ''mean-means''}"
    by simp
  have n: "normalise_colorscale [] grey_scale = Inr [(0, (0, 0, 0)), (1, (255, 255, 255))]"
    by code_simp
  have f: "normalise_colorscale [] (Flat []) = Inl (ValueError ''The colorscale should not be empty.'')"
    by code_simp
  from compute_trace_colors_unknown_colormode [OF a, of "normalise_colorscale []" grey_scale
      "[(0, (0, 0, 0)), (1, (255, 255, 255))]" interpolate_color apply_alpha normalise_min_max
      None ctx_2_3] n
  have 1: "compute_trace_colors (normalise_colorscale []) interpolate_color apply_alpha
         normalise_min_max grey_scale ''mean'' None ctx_2_3
       = Inl (ValueError (''The colormode argument should be one of ''
                 @ tuple_repr [''row-index'', ''trace-index'', ''trace-index-row-wise'',
                     ''mean-minmax'', ''mean-means'']
                 @ '', got mean instead.''))"
    by simp
  from compute_trace_colors_unknown_colormode [OF a, of "normalise_colorscale []" "Flat []"
      _ interpolate_color apply_alpha normalise_min_max None ctx_2_3] f
  have 2: "compute_trace_colors (normalise_colorscale []) interpolate_color apply_alpha
         normalise_min_max (Flat []) ''mean'' None ctx_2_3
       = Inl (ValueError ''The colorscale should not be empty.'')"
    by simp
  from a n f 1 2 show ?thesis by blast
qed

text \<open>
  Claim C3, as stated, fails for an empty colour scale together with the unknown
  colormode \<open>mean\<close>: the error reported is the one of the colour scale, not the one that
  lists the colormodes.
\<close>

theorem unknown_colormode_invalid_colorscale_counterexample:
  "map_of (COLORMODE_MAPS normalise_min_max) ''mean'' = None
   \<and> normalise_colorscale [] (Flat []) = Inl (ValueError ''The colorscale should not be empty.'')
   \<and> compute_trace_colors (normalise_colorscale []) interpolate_color apply_alpha
         normalise_min_max (Flat []) ''mean'' None ctx_2_3
       = Inl (ValueError ''The colorscale should not be empty.'')
   \<and> compute_trace_colors (normalise_colorscale []) interpolate_color apply_alpha
         normalise_min_max (Flat []) ''mean'' None ctx_2_3
       \<noteq> Inl (colormode_error (map fst (COLORMODE_MAPS normalise_min_max)) ''mean'')"
  by code_simp

subsection \<open>The mean-based strategies\<close>

lemma mul_fst_snd: "mul (map fst t) (map snd t) = map (\<lambda>(x, y). x * y) t"
  by (induction t) (auto simp: mul_def)

lemma trace_mean_Inr:
  "trace_mean t = Inr m \<longleftrightarrow> t \<noteq> [] \<and> sum_list (map snd t) \<noteq> 0 \<and> m = spec_weighted_mean t"
  by (auto simp: trace_mean_unfold unzip_trace_def py_div_def mul_fst_snd spec_weighted_mean_def)

lemma traverse_Inr_map:
  assumes "traverse f xs = Inr ys" and "\<And>x y. x \<in> set xs \<Longrightarrow> f x = Inr y \<Longrightarrow> y = g x"
  shows "ys = map g xs"
proof (rule nth_equalityI)
  show "length ys = length (map g xs)" using traverse_length [OF assms(1)] by simp
next
  fix i assume "i < length ys"
  then have i: "i < length xs" using traverse_length [OF assms(1)] by simp
  from assms(2) [OF _ traverse_nth [OF assms(1) i]] i show "ys ! i = map g xs ! i" by simp
qed

lemma traverse_trace_mean_Inr:
  assumes "traverse (traverse trace_mean) ds = Inr means"
  shows "means = map (map spec_weighted_mean) ds"
proof (rule traverse_Inr_map [OF assms])
  fix row ms assume "traverse trace_mean row = Inr ms"
  then show "ms = map spec_weighted_mean row"
    by (rule traverse_Inr_map) (simp add: trace_mean_Inr)
qed

text \<open>
  Claim C4. When \<open>mean-minmax\<close> returns a grid, the entry of every trace is the result of
  \<open>normalise_min_max\<close> applied to the weighted mean \<open>\<Sigma>(x\<cdot>y) / \<Sigma>(y)\<close> of that trace and
  to the fields \<open>x_min\<close> and \<open>x_max\<close> of the context. It returns a grid when every trace
  has positive mass and the normalisation of its mean succeeds. In a context built by
  \<open>from_densities\<close>, the two fields are the first two components of what
  \<open>get_xy_extrema\<close> returns for the whole grid.
\<close>

theorem mean_minmax_interpolant:
  "(interpolate_mean_minmax nmm ctx = Inr ps \<longrightarrow>
      (\<forall>r<length (densities ctx). \<forall>t<length (densities ctx ! r).
         nmm (spec_weighted_mean (densities ctx ! r ! t)) (x_min ctx) (x_max ctx)
           = Inr (ps ! r ! t)))
   \<and> ((\<forall>row\<in>set (densities ctx). \<forall>t\<in>set row.
          0 < sum_list (map snd t)
          \<and> (\<exists>v. nmm (spec_weighted_mean t) (x_min ctx) (x_max ctx) = Inr v)) \<longrightarrow>
       (\<exists>qs. interpolate_mean_minmax nmm ctx = Inr qs))
   \<and> (from_densities gxe ds = Inr ctx \<longrightarrow>
       densities ctx = ds
       \<and> (\<exists>ymin ymax. gxe ds = Inr (x_min ctx, x_max ctx, ymin, ymax)))"
proof (intro conjI impI allI)
  fix r t
  assume p: "interpolate_mean_minmax nmm ctx = Inr ps"
    and r: "r < length (densities ctx)" and t: "t < length (densities ctx ! r)"
  let ?f = "\<lambda>t. case trace_mean t of Inl e \<Rightarrow> Inl e | Inr m \<Rightarrow> nmm m (x_min ctx) (x_max ctx)"
  from traverse_nth [OF p [unfolded interpolate_mean_minmax_unfold] r]
  have "traverse ?f (densities ctx ! r) = Inr (ps ! r)" .
  from traverse_nth [OF this t]
  have "?f (densities ctx ! r ! t) = Inr (ps ! r ! t)" .
  then show "nmm (spec_weighted_mean (densities ctx ! r ! t)) (x_min ctx) (x_max ctx)
      = Inr (ps ! r ! t)"
    by (auto simp: trace_mean_Inr split: sum.splits)
next
  assume a: "\<forall>row\<in>set (densities ctx). \<forall>t\<in>set row.
          0 < sum_list (map snd t)
          \<and> (\<exists>v. nmm (spec_weighted_mean t) (x_min ctx) (x_max ctx) = Inr v)"
  let ?f = "\<lambda>t. case trace_mean t of Inl e \<Rightarrow> Inl e | Inr m \<Rightarrow> nmm m (x_min ctx) (x_max ctx)"
  have "\<exists>v. ?f t = Inr v" if "row \<in> set (densities ctx)" and "t \<in> set row" for row t
  proof -
    from a that have m: "0 < sum_list (map snd t)"
      and v: "\<exists>v. nmm (spec_weighted_mean t) (x_min ctx) (x_max ctx) = Inr v"
      by auto
    from m have "t \<noteq> []" by auto
    with m have "trace_mean t = Inr (spec_weighted_mean t)" by (simp add: trace_mean_Inr)
    with v show ?thesis by simp
  qed
  then have "\<forall>row\<in>set (densities ctx). \<forall>t\<in>set row. \<exists>v. ?f t = Inr v" by blast
  from traverse_traverse_total [OF this]
  show "\<exists>qs. interpolate_mean_minmax nmm ctx = Inr qs"
    by (simp add: interpolate_mean_minmax_unfold)
next
  assume "from_densities gxe ds = Inr ctx"
  then show "densities ctx = ds"
    by (auto simp: from_densities_def split: sum.splits)
next
  assume "from_densities gxe ds = Inr ctx"
  then show "\<exists>ymin ymax. gxe ds = Inr (x_min ctx, x_max ctx, ymin, ymax)"
    by (auto simp: from_densities_def split: sum.splits)
qed

theorem mean_minmax_interpolant_witness:
  "interpolate_mean_minmax normalise_min_max ctx_2_3 = Inr [[3 / 16, 3 / 4], [3 / 4, 3 / 16, 3 / 16]]
   \<and> (1::nat) < length (densities ctx_2_3) \<and> (2::nat) < length (densities ctx_2_3 ! 1)
   \<and> spec_weighted_mean (densities ctx_2_3 ! 1 ! 2) = 3 / 4
   \<and> normalise_min_max (3 / 4) (x_min ctx_2_3) (x_max ctx_2_3) = Inr (3 / 16)
   \<and> normalise_min_max (spec_weighted_mean (densities ctx_2_3 ! 1 ! 2))
         (x_min ctx_2_3) (x_max ctx_2_3)
       = Inr ([[3 / 16, 3 / 4], [3 / 4, 3 / 16, 3 / 16]] ! 1 ! 2)
   \<and> from_densities get_xy_extrema [[trace_a, trace_b], [trace_b, trace_a, trace_a]] = Inr ctx_2_3
   \<and> (\<exists>ymin ymax. get_xy_extrema [[trace_a, trace_b], [trace_b, trace_a, trace_a]]
         = Inr (x_min ctx_2_3, x_max ctx_2_3, ymin, ymax))"
proof -
  let ?ps = "[[3 / 16, 3 / 4], [3 / 4, 3 / 16, 3 / 16]] :: rat list list"
  let ?ds = "[[trace_a, trace_b], [trace_b, trace_a, trace_a]]"
  have p: "interpolate_mean_minmax normalise_min_max ctx_2_3 = Inr ?ps"
    by code_simp
  have r: "(1::nat) < length (densities ctx_2_3)" and t: "(2::nat) < length (densities ctx_2_3 ! 1)"
    by (simp_all add: ctx_2_3_def)
  have w: "spec_weighted_mean (densities ctx_2_3 ! 1 ! 2) = 3 / 4"
    by (simp add: ctx_2_3_def trace_a_def spec_weighted_mean_def)
  have n: "normalise_min_max (3 / 4) (x_min ctx_2_3) (x_max ctx_2_3) = Inr (3 / 16)"
    by (simp add: ctx_2_3_def normalise_min_max_def py_div_def)
  have b: "from_densities get_xy_extrema ?ds = Inr ctx_2_3"
    by code_simp
  note inst = mean_minmax_interpolant [of normalise_min_max ctx_2_3 ?ps get_xy_extrema ?ds]
  from inst p r t
  have 1: "normalise_min_max (spec_weighted_mean (densities ctx_2_3 ! 1 ! 2))
         (x_min ctx_2_3) (x_max ctx_2_3) = Inr (?ps ! 1 ! 2)"
    by blast
  from inst b
  have 2: "\<exists>ymin ymax. get_xy_extrema ?ds = Inr (x_min ctx_2_3, x_max ctx_2_3, ymin, ymax)"
    by blast
  from p r t w n 1 b 2 show ?thesis by blast
qed

lemma py_min_Inr: "py_min xs = Inr m \<longleftrightarrow> xs \<noteq> [] \<and> m = Min (set xs)"
  by (cases xs) (auto simp flip: Min.set_eq_fold)

lemma py_max_Inr: "py_max xs = Inr m \<longleftrightarrow> xs \<noteq> [] \<and> m = Max (set xs)"
  by (cases xs) (auto simp flip: Max.set_eq_fold)

lemma py_min_nonempty: "xs \<noteq> [] \<Longrightarrow> py_min xs = Inr (Min (set xs))"
  by (simp add: py_min_Inr)

lemma py_max_nonempty: "xs \<noteq> [] \<Longrightarrow> py_max xs = Inr (Max (set xs))"
  by (simp add: py_max_Inr)

lemma Min_row_mins:
  assumes "means \<noteq> []" and "[] \<notin> set means"
  shows "Min (set (map (\<lambda>row. Min (set row)) means)) = Min (set (concat means))"
proof (rule sym, rule Min_eqI)
  let ?mins = "map (\<lambda>row. Min (set row)) means"
  show "finite (set (concat means))" by simp
  have ne: "set ?mins \<noteq> {}" using assms(1) by simp
  show "Min (set ?mins) \<le> y" if "y \<in> set (concat means)" for y
  proof -
    from that obtain row where row: "row \<in> set means" and y: "y \<in> set row" by auto
    have "Min (set ?mins) \<le> Min (set row)" using row by (intro Min_le) auto
    also have "Min (set row) \<le> y" using y by (intro Min_le) auto
    finally show ?thesis .
  qed
  from Min_in [OF _ ne] obtain row where row: "row \<in> set means"
    and m: "Min (set ?mins) = Min (set row)" by auto
  from row assms(2) have "set row \<noteq> {}" by auto
  from Min_in [OF _ this] have "Min (set row) \<in> set row" by simp
  with row m show "Min (set ?mins) \<in> set (concat means)" by auto
qed

lemma Max_row_maxs:
  assumes "means \<noteq> []" and "[] \<notin> set means"
  shows "Max (set (map (\<lambda>row. Max (set row)) means)) = Max (set (concat means))"
proof (rule sym, rule Max_eqI)
  let ?maxs = "map (\<lambda>row. Max (set row)) means"
  show "finite (set (concat means))" by simp
  have ne: "set ?maxs \<noteq> {}" using assms(1) by simp
  show "y \<le> Max (set ?maxs)" if "y \<in> set (concat means)" for y
  proof -
    from that obtain row where row: "row \<in> set means" and y: "y \<in> set row" by auto
    have "y \<le> Max (set row)" using y by (intro Max_ge) auto
    also have "Max (set row) \<le> Max (set ?maxs)" using row by (intro Max_ge) auto
    finally show ?thesis .
  qed
  from Max_in [OF _ ne] obtain row where row: "row \<in> set means"
    and m: "Max (set ?maxs) = Max (set row)" by auto
  from row assms(2) have "set row \<noteq> {}" by auto
  from Max_in [OF _ this] have "Max (set row) \<in> set row" by simp
  with row m show "Max (set ?maxs) \<in> set (concat means)" by auto
qed

lemma traverse_py_min:
  "[] \<notin> set means \<Longrightarrow> traverse py_min means = Inr (map (\<lambda>row. Min (set row)) means)"
  by (induction means) (auto simp: py_min_nonempty)

lemma traverse_py_max:
  "[] \<notin> set means \<Longrightarrow> traverse py_max means = Inr (map (\<lambda>row. Max (set row)) means)"
  by (induction means) (auto simp: py_max_nonempty)

lemma traverse_py_min_fails:
  "[] \<in> set means \<Longrightarrow> \<exists>e. traverse py_min means = Inl e"
  by (rule traverse_fails [of "[]"]) simp_all

text \<open>With the grid of means at hand, the second pass of \<open>mean-means\<close>.\<close>

lemma mean_means_second_pass:
  assumes "traverse (traverse trace_mean) (densities ctx) = Inr means"
    and "means \<noteq> []" and "[] \<notin> set means"
  shows "interpolate_mean_means nmm ctx
    = traverse (traverse (\<lambda>mean. nmm mean (Min (set (concat means))) (Max (set (concat means)))))
        means"
proof -
  have 1: "py_min (map (\<lambda>row. Min (set row)) means) = Inr (Min (set (concat means)))"
    using assms(2) Min_row_mins [OF assms(2,3)] by (simp add: py_min_Inr)
  have 2: "py_max (map (\<lambda>row. Max (set row)) means) = Inr (Max (set (concat means)))"
    using assms(2) Max_row_maxs [OF assms(2,3)] by (simp add: py_max_Inr)
  show ?thesis
    by (simp add: interpolate_mean_means_unfold assms(1) traverse_py_min [OF assms(3)]
        traverse_py_max [OF assms(3)] 1 2)
qed

lemma mean_means_Inr_means:
  assumes "interpolate_mean_means nmm ctx = Inr ps"
  shows "\<exists>means. traverse (traverse trace_mean) (densities ctx) = Inr means
           \<and> means \<noteq> [] \<and> [] \<notin> set means"
proof -
  from assms obtain means row_mins lo where
    m: "traverse (traverse trace_mean) (densities ctx) = Inr means" and
    r: "traverse py_min means = Inr row_mins" and l: "py_min row_mins = Inr lo"
    by (auto simp: interpolate_mean_means_unfold split: sum.splits)
  from l have "row_mins \<noteq> []" by (simp add: py_min_Inr)
  with traverse_length [OF r] have "means \<noteq> []" by auto
  moreover have "[] \<notin> set means"
  proof
    assume "[] \<in> set means"
    from traverse_py_min_fails [OF this] r show False by simp
  qed
  ultimately show ?thesis using m by blast
qed

lemma concat_means:
  "concat (map (map spec_weighted_mean) ds) = spec_all_means ds"
  by (simp add: spec_all_means_def map_concat)

text \<open>
  Claim C5. When \<open>mean-means\<close> returns a grid, the entry of every trace is the result of
  \<open>normalise_min_max\<close> applied to the weighted mean of that trace and to the minimum and
  the maximum over the weighted means of all traces of the grid. It returns a grid when
  the grid has a row, every row has a trace, every trace has positive mass and the
  normalisation of every mean succeeds. The first pass comes first: an error in the mean
  of any trace is the result, whatever \<open>normalise_min_max\<close> does.
\<close>

theorem mean_means_interpolant:
  "(interpolate_mean_means nmm ctx = Inr ps \<longrightarrow>
      (\<forall>r<length (densities ctx). \<forall>t<length (densities ctx ! r).
         nmm (spec_weighted_mean (densities ctx ! r ! t))
             (Min (set (spec_all_means (densities ctx))))
             (Max (set (spec_all_means (densities ctx))))
           = Inr (ps ! r ! t)))
   \<and> (densities ctx \<noteq> [] \<and> [] \<notin> set (densities ctx)
       \<and> (\<forall>row\<in>set (densities ctx). \<forall>t\<in>set row.
            0 < sum_list (map snd t)
            \<and> (\<exists>v. nmm (spec_weighted_mean t)
                   (Min (set (spec_all_means (densities ctx))))
                   (Max (set (spec_all_means (densities ctx)))) = Inr v)) \<longrightarrow>
       (\<exists>qs. interpolate_mean_means nmm ctx = Inr qs))
   \<and> (traverse (traverse trace_mean) (densities ctx) = Inl e \<longrightarrow>
       interpolate_mean_means nmm ctx = Inl e)"
proof (intro conjI impI allI)
  fix r t
  let ?lo = "Min (set (spec_all_means (densities ctx)))"
  let ?hi = "Max (set (spec_all_means (densities ctx)))"
  assume p: "interpolate_mean_means nmm ctx = Inr ps"
    and r: "r < length (densities ctx)" and t: "t < length (densities ctx ! r)"
  from mean_means_Inr_means [OF p] obtain means where
    m: "traverse (traverse trace_mean) (densities ctx) = Inr means"
    and ne: "means \<noteq> []" "[] \<notin> set means"
    by blast
  have means: "means = map (map spec_weighted_mean) (densities ctx)"
    by (rule traverse_trace_mean_Inr [OF m])
  from p mean_means_second_pass [OF m ne, of nmm]
  have q: "traverse (traverse (\<lambda>mean. nmm mean ?lo ?hi)) means = Inr ps"
    by (simp add: means concat_means)
  from r have r': "r < length means" by (simp add: means)
  from t r have t': "t < length (means ! r)" by (simp add: means)
  from traverse_nth [OF traverse_nth [OF q r'] t']
  have "nmm (means ! r ! t) ?lo ?hi = Inr (ps ! r ! t)" .
  with r t show "nmm (spec_weighted_mean (densities ctx ! r ! t)) ?lo ?hi = Inr (ps ! r ! t)"
    by (simp add: means)
next
  let ?lo = "Min (set (spec_all_means (densities ctx)))"
  let ?hi = "Max (set (spec_all_means (densities ctx)))"
  let ?means = "map (map spec_weighted_mean) (densities ctx)"
  assume a: "densities ctx \<noteq> [] \<and> [] \<notin> set (densities ctx)
       \<and> (\<forall>row\<in>set (densities ctx). \<forall>t\<in>set row.
            0 < sum_list (map snd t) \<and> (\<exists>v. nmm (spec_weighted_mean t) ?lo ?hi = Inr v))"
  have "\<exists>m. trace_mean t = Inr m" if "row \<in> set (densities ctx)" and "t \<in> set row" for row t
  proof -
    from a that have m: "0 < sum_list (map snd t)" by auto
    then have "t \<noteq> []" by auto
    with m show ?thesis by (simp add: trace_mean_Inr)
  qed
  then have "\<forall>row\<in>set (densities ctx). \<forall>t\<in>set row. \<exists>m. trace_mean t = Inr m" by blast
  from traverse_traverse_total [OF this] obtain means where
    m: "traverse (traverse trace_mean) (densities ctx) = Inr means" by blast
  have means: "means = ?means" by (rule traverse_trace_mean_Inr [OF m])
  from a have ne: "means \<noteq> []" "[] \<notin> set means" by (auto simp: means)
  from a have "\<forall>row\<in>set means. \<forall>mean\<in>set row. \<exists>v. nmm mean ?lo ?hi = Inr v"
    by (auto simp: means)
  from traverse_traverse_total [OF this] obtain qs where
    "traverse (traverse (\<lambda>mean. nmm mean ?lo ?hi)) means = Inr qs" by blast
  with mean_means_second_pass [OF m ne, of nmm]
  show "\<exists>qs. interpolate_mean_means nmm ctx = Inr qs"
    by (simp add: means concat_means)
next
  assume "traverse (traverse trace_mean) (densities ctx) = Inl e"
  then show "interpolate_mean_means nmm ctx = Inl e"
    by (simp add: interpolate_mean_means_unfold)
qed

theorem mean_means_interpolant_witness:
  "interpolate_mean_means normalise_min_max ctx_2_3 = Inr [[0, 1], [1, 0, 0]]
   \<and> (0::nat) < length (densities ctx_2_3) \<and> (1::nat) < length (densities ctx_2_3 ! 0)
   \<and> spec_all_means (densities ctx_2_3) = [3 / 4, 3, 3, 3 / 4, 3 / 4]
   \<and> spec_weighted_mean (densities ctx_2_3 ! 0 ! 1) = 3
   \<and> normalise_min_max 3 (3 / 4) 3 = Inr 1
   \<and> normalise_min_max (spec_weighted_mean (densities ctx_2_3 ! 0 ! 1))
         (Min (set (spec_all_means (densities ctx_2_3))))
         (Max (set (spec_all_means (densities ctx_2_3))))
       = Inr ([[0, 1], [1, 0, 0]] ! 0 ! 1)"
proof -
  let ?ps = "[[0, 1], [1, 0, 0]] :: rat list list"
  have p: "interpolate_mean_means normalise_min_max ctx_2_3 = Inr ?ps"
    by code_simp
  have r: "(0::nat) < length (densities ctx_2_3)" and t: "(1::nat) < length (densities ctx_2_3 ! 0)"
    by (simp_all add: ctx_2_3_def)
  have a: "spec_all_means (densities ctx_2_3) = [3 / 4, 3, 3, 3 / 4, 3 / 4]"
    by (simp add: ctx_2_3_def trace_a_def trace_b_def spec_all_means_def spec_weighted_mean_def)
  have w: "spec_weighted_mean (densities ctx_2_3 ! 0 ! 1) = 3"
    by (simp add: ctx_2_3_def trace_b_def spec_weighted_mean_def)
  have n: "normalise_min_max 3 (3 / 4) 3 = Inr 1"
    by (simp add: normalise_min_max_def py_div_def)
  from mean_means_interpolant [of normalise_min_max ctx_2_3 ?ps] p r t
  have 1: "normalise_min_max (spec_weighted_mean (densities ctx_2_3 ! 0 ! 1))
         (Min (set (spec_all_means (densities ctx_2_3))))
         (Max (set (spec_all_means (densities ctx_2_3))))
       = Inr (?ps ! 0 ! 1)"
    by blast
  from p r t a w n 1 show ?thesis by blast
qed

subsection \<open>A trace without mass\<close>







subsection \<open>The index-based strategies\<close>

lemma from_densities_Inr:
  assumes "from_densities gxe ds = Inr ctx"
  shows "densities ctx = ds" and "n_rows ctx = int (length ds)"
    and "n_traces ctx = sum_list (map (\<lambda>row. int (length row)) ds)"
  using assms by (auto simp: from_densities_def split: sum.splits)

text \<open>
  Claim C7. For a grid of three rows with one trace each, in a context built by
  \<open>from_densities\<close>, the strategy \<open>trace-index\<close> returns the positions 1, 1/2 and 0 for
  the traces with the running indices 0, 1 and 2, which count through the rows in
  row-major order.
\<close>

theorem trace_index_three_rows:
  assumes "from_densities gxe [[t1], [t2], [t3]] = Inr ctx"
  shows "interpolate_trace_index ctx = Inr [[1], [1 / 2], [0]]"
  by (simp add: interpolate_trace_index_def from_densities_Inr [OF assms] py_truediv_def)

theorem trace_index_three_rows_witness:
  "from_densities get_xy_extrema [[trace_a], [trace_b], [trace_a]] = Inr ctx_3_1
   \<and> interpolate_trace_index ctx_3_1 = Inr [[1], [1 / 2], [0]]"
proof -
  have b: "from_densities get_xy_extrema [[trace_a], [trace_b], [trace_a]] = Inr ctx_3_1"
    by code_simp
  from trace_index_three_rows [OF b] b show ?thesis by blast
qed

text \<open>The positions of a row of \<open>n\<close> traces under \<open>trace-index-row-wise\<close>.\<close>

lemma traverse_Inr: "traverse (\<lambda>x. Inr (g x)) xs = Inr (map g xs)"
  by (induction xs) auto

lemma row_wise_row:
  "traverse (\<lambda>i. py_truediv ((int n - 1) - int i) (int n - 1)) [0 ..< n]
   = (if n = 1 then Inl ZeroDivisionError
      else Inr (map (\<lambda>i. of_int ((int n - 1) - int i) / of_int (int n - 1)) [0 ..< n]))"
proof (cases "n = 1")
  case True
  then show ?thesis by (simp add: py_truediv_def)
next
  case False
  then have "(\<lambda>i. py_truediv ((int n - 1) - int i) (int n - 1))
      = (\<lambda>i. Inr (of_int ((int n - 1) - int i) / of_int (int n - 1)))"
    by (auto simp: py_truediv_def fun_eq_iff)
  with False show ?thesis by (simp add: traverse_Inr)
qed

text \<open>
  Claim C8, as amended. When \<open>trace-index-row-wise\<close> returns a grid, the positions of
  every row are a function of the number of traces of that row alone, and the last
  position of every row that has a trace is 0. It returns a grid when no row has
  exactly one trace. A row with exactly one trace anywhere in the grid makes the whole
  strategy fail with \<open>ZeroDivisionError\<close>, so that no row gets positions then.
\<close>

theorem row_wise_last_zero:
  "(interpolate_trace_index_row_wise ctx = Inr ps \<longrightarrow>
      (\<forall>r<length (densities ctx).
         ps ! r = map (\<lambda>i. of_int ((int (length (densities ctx ! r)) - 1) - int i)
                          / of_int (int (length (densities ctx ! r)) - 1))
                    [0 ..< length (densities ctx ! r)]
         \<and> (densities ctx ! r \<noteq> [] \<longrightarrow> last (ps ! r) = 0)))
   \<and> ((\<forall>row\<in>set (densities ctx). length row \<noteq> 1) \<longrightarrow>
       (\<exists>qs. interpolate_trace_index_row_wise ctx = Inr qs))
   \<and> ((\<exists>row\<in>set (densities ctx). length row = 1) \<longrightarrow>
       interpolate_trace_index_row_wise ctx = Inl ZeroDivisionError)"
proof (intro conjI impI allI)
  fix r
  assume p: "interpolate_trace_index_row_wise ctx = Inr ps" and r: "r < length (densities ctx)"
  let ?n = "length (densities ctx ! r)"
  from traverse_nth [OF p [unfolded interpolate_trace_index_row_wise_def] r]
  have row: "ps ! r = map (\<lambda>i. of_int ((int ?n - 1) - int i) / of_int (int ?n - 1)) [0 ..< ?n]"
    and n: "?n \<noteq> 1"
    by (auto simp: row_wise_row split: if_splits)
  show "ps ! r = map (\<lambda>i. of_int ((int ?n - 1) - int i) / of_int (int ?n - 1)) [0 ..< ?n]"
    by (rule row)
  assume "densities ctx ! r \<noteq> []"
  then have "0 < ?n" by simp
  then have "last [0 ..< ?n] = ?n - 1" and "[0 ..< ?n] \<noteq> []" by simp_all
  then have "last (ps ! r) = of_int ((int ?n - 1) - int (?n - 1)) / of_int (int ?n - 1)"
    by (simp add: row last_map)
  moreover from \<open>0 < ?n\<close> have "(int ?n - 1) - int (?n - 1) = 0" by linarith
  ultimately show "last (ps ! r) = 0" by simp
next
  assume a: "\<forall>row\<in>set (densities ctx). length row \<noteq> 1"
  show "\<exists>qs. interpolate_trace_index_row_wise ctx = Inr qs"
    unfolding interpolate_trace_index_row_wise_def
  proof (rule traverse_total)
    fix row assume "row \<in> set (densities ctx)"
    with a have "length row \<noteq> 1" by blast
    then show "\<exists>y. traverse
        (\<lambda>ith_row_trace. py_truediv ((int (length row) - 1) - int ith_row_trace)
           (int (length row) - 1))
        [0 ..< length row] = Inr y"
      by (simp add: row_wise_row)
  qed
next
  assume "\<exists>row\<in>set (densities ctx). length row = 1"
  then obtain row where row: "row \<in> set (densities ctx)" and l: "length row = 1" by blast
  let ?F = "\<lambda>row. traverse
      (\<lambda>ith_row_trace. py_truediv ((int (length row) - 1) - int ith_row_trace)
         (int (length row) - 1))
      [0 ..< length row]"
  have 1: "?F row = Inl ZeroDivisionError"
    unfolding row_wise_row using l by simp
  have 2: "\<forall>y\<in>set (densities ctx). \<forall>e'. ?F y = Inl e' \<longrightarrow> e' = ZeroDivisionError"
    unfolding row_wise_row by (auto split: if_splits)
  show "interpolate_trace_index_row_wise ctx = Inl ZeroDivisionError"
    unfolding interpolate_trace_index_row_wise_def
    by (rule traverse_one_error [OF row 1 2])
qed

theorem row_wise_last_zero_witness:
  "interpolate_trace_index_row_wise ctx_2_3 = Inr [[1, 0], [1, 1 / 2, 0]]
   \<and> (1::nat) < length (densities ctx_2_3) \<and> densities ctx_2_3 ! 1 \<noteq> []
   \<and> last ([[1, 0], [1, 1 / 2, 0]] ! 1) = (0::rat)
   \<and> [trace_a] \<in> set (densities ctx_2_1) \<and> length [trace_a] = 1
   \<and> interpolate_trace_index_row_wise ctx_2_1 = Inl ZeroDivisionError"
proof -
  let ?ps = "[[1, 0], [1, 1 / 2, 0]] :: rat list list"
  have p: "interpolate_trace_index_row_wise ctx_2_3 = Inr ?ps"
    by code_simp
  have r: "(1::nat) < length (densities ctx_2_3)" and n: "densities ctx_2_3 ! 1 \<noteq> []"
    by (simp_all add: ctx_2_3_def)
  from row_wise_last_zero [of ctx_2_3 ?ps] p r n
  have 1: "last (?ps ! 1) = 0" by blast
  have m: "[trace_a] \<in> set (densities ctx_2_1)" and l: "length [trace_a] = 1"
    by (simp_all add: ctx_2_1_def)
  then have "\<exists>row\<in>set (densities ctx_2_1). length row = 1" by blast
  with row_wise_last_zero [of ctx_2_1]
  have 2: "interpolate_trace_index_row_wise ctx_2_1 = Inl ZeroDivisionError" by blast
  from p r n 1 m l 2 show ?thesis by blast
qed

text \<open>
  Claim C8, as stated, fails on a grid whose second row has a single trace: the division
  by \<open>len(row) - 1\<close> raises, and the last trace of the first row gets no position
  either.
\<close>

theorem row_wise_single_trace_row_counterexample:
  "from_densities get_xy_extrema [[trace_a, trace_b], [trace_a]] = Inr ctx_2_1
   \<and> interpolate_trace_index_row_wise ctx_2_1 = Inl ZeroDivisionError
   \<and> compute_trace_colors (normalise_colorscale []) interpolate_color apply_alpha
         normalise_min_max grey_scale ''trace-index-row-wise'' None ctx_2_1
       = Inl ZeroDivisionError"
  by code_simp

text \<open>The index-based strategies read the rows only through their lengths.\<close>

lemma row_index_rows_shape_only:
  "map length ds = map length ds' \<Longrightarrow>
   traverse (\<lambda>(ith_row, row). case py_truediv ((n - 1) - int ith_row) (n - 1) of
                Inl e \<Rightarrow> Inl e
              | Inr v \<Rightarrow> Inr (replicate (length row) v)) (enumerate k ds)
   = traverse (\<lambda>(ith_row, row). case py_truediv ((n - 1) - int ith_row) (n - 1) of
                Inl e \<Rightarrow> Inl e
              | Inr v \<Rightarrow> Inr (replicate (length row) v)) (enumerate k ds')"
proof (induction ds arbitrary: ds' k)
  case Nil
  then show ?case by simp
next
  case (Cons row ds)
  from Cons.prems obtain row' rest where ds': "ds' = row' # rest"
    and l: "length row = length row'" and m: "map length ds = map length rest"
    by (cases ds') auto
  from Cons.IH [OF m] show ?case by (simp add: ds' l cong: sum.case_cong)
qed

lemma trace_index_row_shape_only:
  "length row = length row' \<Longrightarrow> trace_index_row nt k row = trace_index_row nt k row'"
proof (induction row arbitrary: row' k)
  case Nil
  then show ?case by simp
next
  case (Cons t row)
  from Cons.prems obtain t' rest where row': "row' = t' # rest" and l: "length row = length rest"
    by (cases row') auto
  from Cons.IH [OF l] show ?case by (simp add: row' cong: sum.case_cong)
qed

lemma trace_index_rows_shape_only:
  "map length ds = map length ds' \<Longrightarrow> trace_index_rows nt k ds = trace_index_rows nt k ds'"
proof (induction ds arbitrary: ds' k)
  case Nil
  then show ?case by simp
next
  case (Cons row ds)
  from Cons.prems obtain row' rest where ds': "ds' = row' # rest"
    and l: "length row = length row'" and m: "map length ds = map length rest"
    by (cases ds') auto
  from Cons.IH [OF m] trace_index_row_shape_only [OF l] show ?case
    by (simp add: ds' cong: sum.case_cong)
qed

lemma traverse_map: "traverse f (map g xs) = traverse (\<lambda>x. f (g x)) xs"
  by (induction xs) (auto cong: sum.case_cong)

lemma row_wise_via_lengths:
  "interpolate_trace_index_row_wise ctx
   = traverse (\<lambda>n. traverse (\<lambda>i. py_truediv ((int n - 1) - int i) (int n - 1)) [0 ..< n])
       (map length (densities ctx))"
  by (simp add: interpolate_trace_index_row_wise_def traverse_map)

lemma sum_lengths: "sum_list (map (\<lambda>row. int (length row)) ds) = sum_list (map int (map length ds))"
  by (simp add: comp_def)

text \<open>
  Claim C9. For two grids with the same number of rows and the same number of traces in
  every row, in contexts built by \<open>from_densities\<close>, each of the strategies \<open>row-index\<close>,
  \<open>trace-index\<close> and \<open>trace-index-row-wise\<close> gives the same result for both, whatever
  the points of the traces are. The results are compared with their errors, so that the
  two calls also fail alike.
\<close>

theorem index_strategies_shape_only:
  assumes "from_densities gxe ds = Inr ctx" and "from_densities gxe' ds' = Inr ctx'"
    and "map length ds = map length ds'"
  shows "interpolate_row_index ctx = interpolate_row_index ctx'
    \<and> interpolate_trace_index ctx = interpolate_trace_index ctx'
    \<and> interpolate_trace_index_row_wise ctx = interpolate_trace_index_row_wise ctx'"
proof (intro conjI)
  note c = from_densities_Inr [OF assms(1)] and c' = from_densities_Inr [OF assms(2)]
  from arg_cong [OF assms(3), of length] have len: "length ds = length ds'" by simp
  have nt: "n_traces ctx = n_traces ctx'"
    by (simp only: c c' sum_lengths assms(3))
  show "interpolate_row_index ctx = interpolate_row_index ctx'"
    unfolding interpolate_row_index_def c c' len
    by (rule row_index_rows_shape_only [OF assms(3)])
  show "interpolate_trace_index ctx = interpolate_trace_index ctx'"
    unfolding interpolate_trace_index_def nt c(1) c'(1)
    by (rule trace_index_rows_shape_only [OF assms(3)])
  show "interpolate_trace_index_row_wise ctx = interpolate_trace_index_row_wise ctx'"
    by (simp only: row_wise_via_lengths c c' assms(3))
qed

theorem index_strategies_shape_only_witness:
  "from_densities get_xy_extrema [[trace_a, trace_b], [trace_b, trace_a, trace_a]] = Inr ctx_2_3
   \<and> from_densities get_xy_extrema [[trace_b, trace_z], [trace_a, trace_z, trace_b]]
       = Inr ctx_2_3_other
   \<and> map length [[trace_a, trace_b], [trace_b, trace_a, trace_a]]
       = map length [[trace_b, trace_z], [trace_a, trace_z, trace_b]]
   \<and> interpolate_row_index ctx_2_3 = Inr [[1, 1], [0, 0, 0]]
   \<and> interpolate_row_index ctx_2_3_other = Inr [[1, 1], [0, 0, 0]]
   \<and> interpolate_trace_index ctx_2_3 = interpolate_trace_index ctx_2_3_other
   \<and> interpolate_trace_index_row_wise ctx_2_3 = interpolate_trace_index_row_wise ctx_2_3_other"
proof -
  have a: "from_densities get_xy_extrema [[trace_a, trace_b], [trace_b, trace_a, trace_a]]
      = Inr ctx_2_3"
    by code_simp
  have b: "from_densities get_xy_extrema [[trace_b, trace_z], [trace_a, trace_z, trace_b]]
      = Inr ctx_2_3_other"
    by code_simp
  have m: "map length [[trace_a, trace_b], [trace_b, trace_a, trace_a]]
      = map length [[trace_b, trace_z], [trace_a, trace_z, trace_b]]"
    by simp
  have r: "interpolate_row_index ctx_2_3 = Inr [[1, 1], [0, 0, 0]]"
    by code_simp
  from index_strategies_shape_only [OF a b m] a b m r show ?thesis by simp
qed

text \<open>One trace per row: the running counter of \<open>trace-index\<close> is the row index.\<close>

lemma trace_index_rows_singletons:
  "\<forall>row\<in>set ds. length row = 1 \<Longrightarrow>
   trace_index_rows nt (int k) ds
   = traverse (\<lambda>(ith_row, row). case py_truediv ((nt - 1) - int ith_row) (nt - 1) of
                Inl e \<Rightarrow> Inl e
              | Inr v \<Rightarrow> Inr (replicate (length row) v)) (enumerate k ds)"
proof (induction ds arbitrary: k)
  case Nil
  then show ?case by simp
next
  case (Cons row ds)
  from Cons.prems obtain t where row: "row = [t]"
    by (cases row) auto
  from Cons.prems have "\<forall>row\<in>set ds. length row = 1" by simp
  from Cons.IH [OF this, of "Suc k"] show ?case
    by (simp add: row add.commute split: sum.splits)
qed

lemma sum_lengths_singletons:
  "\<forall>row\<in>set ds. length row = 1 \<Longrightarrow> sum_list (map (\<lambda>row. int (length row)) ds) = int (length ds)"
  by (induction ds) auto

text \<open>
  Claim C10. For a grid of at least two rows in which every row has exactly one trace,
  in a context built by \<open>from_densities\<close>, the strategies \<open>row-index\<close> and
  \<open>trace-index\<close> return the same grid of interpolants: row \<open>i\<close> of \<open>n\<close> rows holds the
  single position \<open>((n - 1) - i) / (n - 1)\<close>.
\<close>

theorem row_index_eq_trace_index:
  assumes "from_densities gxe ds = Inr ctx" and "\<forall>row\<in>set ds. length row = 1"
    and "2 \<le> length ds"
  shows "interpolate_row_index ctx = interpolate_trace_index ctx
    \<and> interpolate_row_index ctx
        = Inr (map (\<lambda>i. [of_int ((int (length ds) - 1) - int i) / of_int (int (length ds) - 1)])
                 [0 ..< length ds])"
proof
  note c = from_densities_Inr [OF assms(1)]
  have nt: "n_traces ctx = n_rows ctx"
    by (simp add: c sum_lengths_singletons [OF assms(2)])
  from trace_index_rows_singletons [OF assms(2), of "n_rows ctx" 0]
  show eq: "interpolate_row_index ctx = interpolate_trace_index ctx"
    by (simp add: interpolate_row_index_def interpolate_trace_index_def nt c(1))
  let ?n = "int (length ds)"
  let ?v = "\<lambda>i::nat. of_int ((?n - 1) - int i) / of_int (?n - 1) :: rat"
  from assms(3) have d: "?n - 1 \<noteq> 0" by simp
  have F: "(\<lambda>(ith_row, row). case py_truediv ((?n - 1) - int ith_row) (?n - 1) of
                Inl e \<Rightarrow> Inl e
              | Inr v \<Rightarrow> Inr (replicate (length row) v))
      = (\<lambda>(ith_row, row). Inr (replicate (length row) (?v ith_row)))"
    unfolding py_truediv_def using d by (auto simp: fun_eq_iff)
  have G: "traverse (\<lambda>(ith_row, row). Inr (replicate (length row) (?v ith_row)))
          (enumerate k rows)
        = Inr (map (\<lambda>i. [?v i]) [k ..< k + length rows])"
    if "\<forall>row\<in>set rows. length row = 1" for rows :: "trace list list" and k
    using that
  proof (induction rows arbitrary: k)
    case Nil
    then show ?case by simp
  next
    case (Cons row rows)
    from Cons.prems have l: "length row = 1" and rest: "\<forall>row\<in>set rows. length row = 1"
      by simp_all
    have u: "[k ..< Suc (k + length rows)] = k # [Suc k ..< Suc (k + length rows)]"
      by (rule upt_conv_Cons) simp
    from Cons.IH [OF rest, of "Suc k"] l
    show ?case by (simp add: u del: upt_Suc)
  qed
  from G [OF assms(2), of 0]
  show "interpolate_row_index ctx = Inr (map (\<lambda>i. [?v i]) [0 ..< length ds])"
    by (simp add: interpolate_row_index_def c F)
qed

theorem row_index_eq_trace_index_witness:
  "from_densities get_xy_extrema [[trace_a], [trace_b], [trace_a]] = Inr ctx_3_1
   \<and> length [trace_a] = 1 \<and> length [trace_b] = 1
   \<and> (2::nat) \<le> length [[trace_a], [trace_b], [trace_a]]
   \<and> interpolate_row_index ctx_3_1 = interpolate_trace_index ctx_3_1
   \<and> interpolate_row_index ctx_3_1 = Inr [[1], [1 / 2], [0]]"
proof -
  let ?ds = "[[trace_a], [trace_b], [trace_a]]"
  have b: "from_densities get_xy_extrema ?ds = Inr ctx_3_1"
    by code_simp
  have s: "\<forall>row\<in>set ?ds. length row = 1" and l: "2 \<le> length ?ds"
    by simp_all
  have u: "[0 ..< length ?ds] = [0, 1, 2]"
    by (simp add: upt_rec)
  note r = row_index_eq_trace_index [OF b s l]
  from conjunct1 [OF r]
  have 1: "interpolate_row_index ctx_3_1 = interpolate_trace_index ctx_3_1" .
  from conjunct2 [OF r]
  have 2: "interpolate_row_index ctx_3_1 = Inr [[1], [1 / 2], [0]]"
    by (simp add: u)
  have "length [trace_a] = 1" and "length [trace_b] = 1" by simp_all
  with b l 1 2 show ?thesis by blast
qed

end
